theory Spec2Isabelle
  imports Main "HOL-Library.AList" "HOL-Library.Word"
begin

unbundle bit_operations_syntax

section \<open>Library functions the OAuth module calls\<close>

text \<open>
  The module under study is the OAuth 2.1 authorization-code flow with PKCE
  (\<^verbatim>\<open>handleAuthorize\<close>, \<^verbatim>\<open>handleToken\<close>, \<^verbatim>\<open>validateBearerToken\<close> and the periodic
  sweep). A JavaScript string is modelled by the HOL type \<open>string\<close>, read as the
  UTF-8 bytes of the text; every string the handlers cut or compare by position
  (\<^verbatim>\<open>'Bearer '\<close>, the redirect prefixes, base64url output) is ASCII.
  Times are the millisecond counts \<^verbatim>\<open>Date.now()\<close> returns, as \<open>int\<close>.
\<close>

subsection \<open>SHA-256 and base64url, as \<^verbatim>\<open>crypto.createHash('sha256').update(v).digest('base64url')\<close>\<close>

type_synonym byte = "8 word"
type_synonym word32 = "32 word"

definition rotr :: "nat \<Rightarrow> word32 \<Rightarrow> word32" where
  "rotr n x = (drop_bit n x) OR (push_bit (32 - n) x)"

definition Ch :: "word32 \<Rightarrow> word32 \<Rightarrow> word32 \<Rightarrow> word32" where
  "Ch x y z = (x AND y) XOR (NOT x AND z)"

definition Maj :: "word32 \<Rightarrow> word32 \<Rightarrow> word32 \<Rightarrow> word32" where
  "Maj x y z = (x AND y) XOR (x AND z) XOR (y AND z)"

definition Sigma0 :: "word32 \<Rightarrow> word32" where
  "Sigma0 x = rotr 2 x XOR rotr 13 x XOR rotr 22 x"

definition Sigma1 :: "word32 \<Rightarrow> word32" where
  "Sigma1 x = rotr 6 x XOR rotr 11 x XOR rotr 25 x"

definition sigma0 :: "word32 \<Rightarrow> word32" where
  "sigma0 x = rotr 7 x XOR rotr 18 x XOR drop_bit 3 x"

definition sigma1 :: "word32 \<Rightarrow> word32" where
  "sigma1 x = rotr 17 x XOR rotr 19 x XOR drop_bit 10 x"

text \<open>The sixty-four round constants and the initial hash value, in decimal.\<close>

definition round_constants :: "word32 list" where
  "round_constants =
    [1116352408, 1899447441, 3049323471, 3921009573,
     961987163, 1508970993, 2453635748, 2870763221,
     3624381080, 310598401, 607225278, 1426881987,
     1925078388, 2162078206, 2614888103, 3248222580,
     3835390401, 4022224774, 264347078, 604807628,
     770255983, 1249150122, 1555081692, 1996064986,
     2554220882, 2821834349, 2952996808, 3210313671,
     3336571891, 3584528711, 113926993, 338241895,
     666307205, 773529912, 1294757372, 1396182291,
     1695183700, 1986661051, 2177026350, 2456956037,
     2730485921, 2820302411, 3259730800, 3345764771,
     3516065817, 3600352804, 4094571909, 275423344,
     430227734, 506948616, 659060556, 883997877,
     958139571, 1322822218, 1537002063, 1747873779,
     1955562222, 2024104815, 2227730452, 2361852424,
     2428436474, 2756734187, 3204031479, 3329325298]"

datatype hash_state = HashState word32 word32 word32 word32 word32 word32 word32 word32

definition initial_hash :: hash_state where
  "initial_hash = HashState 1779033703 3144134277 1013904242 2773480762
                            1359893119 2600822924 528734635 1541459225"

fun sha_round :: "word32 \<times> word32 \<Rightarrow> hash_state \<Rightarrow> hash_state" where
  "sha_round (k, w) (HashState a b c d e f g h) =
     (let t1 = h + Sigma1 e + Ch e f g + k + w;
          t2 = Sigma0 a + Maj a b c
      in HashState (t1 + t2) a b c (d + t1) e f g)"

fun hash_add :: "hash_state \<Rightarrow> hash_state \<Rightarrow> hash_state" where
  "hash_add (HashState a b c d e f g h) (HashState a' b' c' d' e' f' g' h') =
     HashState (a + a') (b + b') (c + c') (d + d') (e + e') (f + f') (g + g') (h + h')"

fun extend_schedule :: "nat \<Rightarrow> word32 list \<Rightarrow> word32 list" where
  "extend_schedule 0 ws = ws"
| "extend_schedule (Suc n) ws =
     (let t = length ws
      in extend_schedule n
           (ws @ [sigma1 (ws ! (t - 2)) + ws ! (t - 7) + sigma0 (ws ! (t - 15)) + ws ! (t - 16)]))"

fun be_words :: "byte list \<Rightarrow> word32 list" where
  "be_words (a # b # c # d # rest) =
     (push_bit 24 (ucast a) OR push_bit 16 (ucast b) OR push_bit 8 (ucast c) OR ucast d)
       # be_words rest"
| "be_words _ = []"

definition compress :: "hash_state \<Rightarrow> byte list \<Rightarrow> hash_state" where
  "compress hs block =
     hash_add hs (fold sha_round (zip round_constants (extend_schedule 48 (be_words block))) hs)"

definition be64 :: "64 word \<Rightarrow> byte list" where
  "be64 w = map (\<lambda>i. ucast (drop_bit (8 * i) w)) [7, 6, 5, 4, 3, 2, 1, 0]"

definition pad :: "byte list \<Rightarrow> byte list" where
  "pad msg =
     msg @ [128] @ replicate ((119 - length msg mod 64) mod 64) 0 @ be64 (of_nat (8 * length msg))"

fun blocks :: "nat \<Rightarrow> byte list \<Rightarrow> byte list list" where
  "blocks 0 bs = []"
| "blocks (Suc n) bs = take 64 bs # blocks n (drop 64 bs)"

definition word_bytes :: "word32 \<Rightarrow> byte list" where
  "word_bytes w = [ucast (drop_bit 24 w), ucast (drop_bit 16 w), ucast (drop_bit 8 w), ucast w]"

fun digest_bytes :: "hash_state \<Rightarrow> byte list" where
  "digest_bytes (HashState a b c d e f g h) =
     word_bytes a @ word_bytes b @ word_bytes c @ word_bytes d @
     word_bytes e @ word_bytes f @ word_bytes g @ word_bytes h"

definition sha256 :: "byte list \<Rightarrow> byte list" where
  "sha256 msg =
     (let p = pad msg
      in digest_bytes (fold (\<lambda>blk hs. compress hs blk) (blocks (length p div 64) p) initial_hash))"

definition b64url_alphabet :: string where
  "b64url_alphabet = ''ABCDEFGHIJKLMNOPQRSTUVWXYZabcdefghijklmnopqrstuvwxyz0123456789-_''"

definition b64 :: "nat \<Rightarrow> char" where
  "b64 n = b64url_alphabet ! (n mod 64)"

fun base64url_nat :: "nat list \<Rightarrow> string" where
  "base64url_nat (a # b # c # rest) =
     b64 (a div 4) # b64 (a mod 4 * 16 + b div 16) # b64 (b mod 16 * 4 + c div 64)
       # b64 (c mod 64) # base64url_nat rest"
| "base64url_nat [a, b] = [b64 (a div 4), b64 (a mod 4 * 16 + b div 16), b64 (b mod 16 * 4)]"
| "base64url_nat [a] = [b64 (a div 4), b64 (a mod 4 * 16)]"
| "base64url_nat [] = []"

definition base64url :: "byte list \<Rightarrow> string" where
  "base64url bs = base64url_nat (map unat bs)"

definition sha256_base64url :: "string \<Rightarrow> string" where
  "sha256_base64url v = base64url (sha256 (map of_char v))"

section \<open>The OAuth module\<close>

subsection \<open>\<^verbatim>\<open>generateRandomString\<close> and \<^verbatim>\<open>verifyCodeChallenge\<close>\<close>

text \<open>
  \<^verbatim>\<open>crypto.randomBytes(length).toString('base64url').substring(0, length)\<close>:
  the argument \<open>randomBytes\<close> is the buffer of \<open>len\<close> bytes that \<^verbatim>\<open>crypto.randomBytes\<close>
  returned; it comes from the operating system, so the model takes it as an input.
\<close>

definition generateRandomString :: "nat \<Rightarrow> byte list \<Rightarrow> string" where
  "generateRandomString len randomBytes = take len (base64url randomBytes)"

definition verifyCodeChallenge :: "string \<Rightarrow> string \<Rightarrow> string \<Rightarrow> bool" where
  "verifyCodeChallenge verifier challenge method =
     (if method = ''S256'' then
        (let computedChallenge = sha256_base64url verifier
         in computedChallenge = challenge)
      else if method = ''plain'' then verifier = challenge
      else False)"

subsection \<open>Stored data\<close>

record AuthorizationSession =
  codeChallenge :: string
  codeChallengeMethod :: string
  redirectUri :: string
  clientId :: string
  scope :: string
  state :: string
  resource :: string
  createdAt :: int

text \<open>
  The fields of \<^verbatim>\<open>AccessToken\<close> that share a name with a session field carry the
  prefix \<open>t_\<close>.
\<close>

record AccessToken =
  token :: string
  t_clientId :: string
  t_scope :: string
  t_resource :: string
  expiresAt :: int
  t_createdAt :: int

text \<open>
  The two module-level \<^verbatim>\<open>Map\<close>s. A JavaScript \<^verbatim>\<open>Map\<close> keeps its entries in insertion
  order, so each is an association list: \<^verbatim>\<open>get\<close> is \<^const>\<open>map_of\<close>, \<^verbatim>\<open>set\<close> is
  \<^const>\<open>AList.update\<close> (a known key keeps its place, a new one goes last) and
  \<^verbatim>\<open>delete\<close> is \<^const>\<open>AList.delete\<close>.
\<close>

record server_state =
  authorizationCodes :: "(string \<times> AuthorizationSession) list"
  accessTokens :: "(string \<times> AccessToken) list"

definition initial_state :: server_state where
  "initial_state = \<lparr>authorizationCodes = [], accessTokens = []\<rparr>"

subsection \<open>Requests, responses, log\<close>

text \<open>
  A request parameter is a string or \<^verbatim>\<open>undefined\<close> (\<open>None\<close>). The query of
  \<^verbatim>\<open>GET /authorize\<close> (fields prefixed \<open>q_\<close>) and the body of \<^verbatim>\<open>POST /token\<close>
  (fields prefixed \<open>b_\<close>):
\<close>

record authorize_query =
  q_client_id :: "string option"
  q_redirect_uri :: "string option"
  q_response_type :: "string option"
  q_code_challenge :: "string option"
  q_code_challenge_method :: "string option"
  q_state :: "string option"
  q_scope :: "string option"
  q_resource :: "string option"

record token_body =
  b_grant_type :: "string option"
  b_code :: "string option"
  b_code_verifier :: "string option"
  b_client_id :: "string option"
  b_redirect_uri :: "string option"
  b_resource :: "string option"

text \<open>JavaScript truthiness of such a parameter: \<^verbatim>\<open>undefined\<close> and \<^verbatim>\<open>''\<close> are falsy.\<close>

fun truthy :: "string option \<Rightarrow> bool" where
  "truthy None = False"
| "truthy (Some s) = (s \<noteq> [])"

text \<open>\<^verbatim>\<open>p || d\<close> on strings.\<close>

fun or_else :: "string option \<Rightarrow> string \<Rightarrow> string" where
  "or_else None d = d"
| "or_else (Some s) d = (if s = [] then d else s)"

definition startsWith :: "string \<Rightarrow> string \<Rightarrow> bool" where
  "startsWith s p = (take (length p) s = p)"

text \<open>
  The redirect target: \<^verbatim>\<open>new URL(redirect_uri)\<close> followed by \<^verbatim>\<open>searchParams.set\<close> calls.
  The value keeps the string the URL was parsed from and the parameters set on it.
  The handler parses a string only after it has checked that it begins with
  \<^verbatim>\<open>https://claude.ai/\<close> or \<^verbatim>\<open>https://claude.com/\<close>; scheme and host are then fixed,
  and the parser has no failure in the path, query or fragment, so the constructor
  does not throw there.
\<close>

datatype url = URL string "(string \<times> string) list"

definition new_URL :: "string \<Rightarrow> url" where
  "new_URL s = URL s []"

fun searchParams_set :: "string \<Rightarrow> string \<Rightarrow> url \<Rightarrow> url" where
  "searchParams_set k v (URL s ps) = URL s (AList.update k v ps)"

datatype json_body =
    ErrorBody string string
  | TokenBody string string int "string option"

text \<open>
  \<open>ErrorBody error error_description\<close>; \<open>TokenBody access_token token_type expires_in scope\<close>,
  where a \<open>scope\<close> of \<open>None\<close> is the \<^verbatim>\<open>undefined\<close> that JSON serialisation leaves out.
  A response is \<open>Json status headers body\<close> (\<^verbatim>\<open>res.json\<close> alone answers 200),
  \<open>Redirect status target\<close> (\<^verbatim>\<open>res.redirect\<close> answers 302) or \<open>Next\<close>, the call of
  \<^verbatim>\<open>next()\<close> that hands the request to the protected handler.
\<close>

datatype response =
    Json nat "(string \<times> string) list" json_body
  | Redirect nat url
  | Next

text \<open>
  Log entries, by logger method; \<open>Info\<close> keeps the message and leaves the payload out.
  \<open>AuthFailure reason ip\<close>, \<open>AuthAttempt success ip client_id\<close>.
\<close>

datatype log_entry =
    Info string
  | AuthFailure string "string option"
  | AuthAttempt bool "string option" string

type_synonym outcome = "response \<times> server_state \<times> log_entry list"

subsection \<open>\<^verbatim>\<open>handleAuthorize\<close>\<close>

definition error_response :: "nat \<Rightarrow> string \<Rightarrow> string \<Rightarrow> response" where
  "error_response status err description = Json status [] (ErrorBody err description)"

definition handleAuthorize ::
  "string \<Rightarrow> authorize_query \<Rightarrow> byte list \<Rightarrow> int \<Rightarrow> server_state \<Rightarrow> outcome" where
  "handleAuthorize baseUrl q randomBytes now s =
     (let log0 = [Info ''OAuth /authorize request:''];
          missing = (error_response 400 ''invalid_request'' ''Missing required parameters'', s, log0)
      in case (q_client_id q, q_redirect_uri q, q_response_type q,
               q_code_challenge q, q_code_challenge_method q) of
           (Some client_id, Some redirect_uri, Some response_type,
            Some code_challenge, Some code_challenge_method) \<Rightarrow>
             if client_id = [] \<or> redirect_uri = [] \<or> response_type = [] \<or>
                code_challenge = [] \<or> code_challenge_method = []
             then missing
             else if response_type \<noteq> ''code''
             then (error_response 400 ''unsupported_response_type''
                     ''Only authorization_code flow is supported'', s, log0)
             else if code_challenge_method \<noteq> ''S256''
             then (error_response 400 ''invalid_request''
                     ''Only S256 code_challenge_method is supported'', s, log0)
             else if \<not> startsWith redirect_uri ''https://claude.ai/'' \<and>
                     \<not> startsWith redirect_uri ''https://claude.com/''
             then (error_response 400 ''invalid_request'' ''Invalid redirect_uri'', s, log0)
             else
               (let authCode = generateRandomString 32 randomBytes;
                    session = \<lparr>codeChallenge = code_challenge,
                               codeChallengeMethod = code_challenge_method,
                               redirectUri = redirect_uri,
                               clientId = client_id,
                               scope = or_else (q_scope q) [],
                               state = or_else (q_state q) [],
                               resource = or_else (q_resource q) baseUrl,
                               createdAt = now\<rparr>;
                    s' = s\<lparr>authorizationCodes :=
                             AList.update authCode session (authorizationCodes s)\<rparr>;
                    redirectUrl = searchParams_set ''code'' authCode (new_URL redirect_uri);
                    redirectUrl' = (case q_state q of
                                      None \<Rightarrow> redirectUrl
                                    | Some st \<Rightarrow>
                                        if st = [] then redirectUrl
                                        else searchParams_set ''state'' st redirectUrl)
                in (Redirect 302 redirectUrl', s',
                    log0 @ [Info ''Generated authorization code:'', Info ''Redirecting to:'']))
         | _ \<Rightarrow> missing)"

subsection \<open>\<^verbatim>\<open>handleToken\<close>\<close>

text \<open>
  The body is the parsed object \<^verbatim>\<open>req.body\<close>. With string fields no call in the handlers
  throws, so the \<^verbatim>\<open>catch\<close> branches (HTTP 500 \<^verbatim>\<open>server_error\<close>) have no counterpart here.
  The handler reads the clock twice when it builds the token record, once for
  \<^verbatim>\<open>expiresAt\<close> and once for \<^verbatim>\<open>createdAt\<close>; the two readings are the arguments
  \<open>now\<close> and \<open>now'\<close>, in the order of the reads.
\<close>

definition handleToken ::
  "token_body \<Rightarrow> string option \<Rightarrow> byte list \<Rightarrow> int \<Rightarrow> int \<Rightarrow> server_state \<Rightarrow> outcome" where
  "handleToken b ip randomBytes now now' s =
     (let log0 = [Info ''OAuth /token request:''];
          missing = (error_response 400 ''invalid_request'' ''Missing required parameters'', s, log0)
      in case (b_grant_type b, b_code b, b_code_verifier b, b_client_id b) of
           (Some grant_type, Some code, Some code_verifier, Some client_id) \<Rightarrow>
             if grant_type = [] \<or> code = [] \<or> code_verifier = [] \<or> client_id = []
             then missing
             else if grant_type \<noteq> ''authorization_code''
             then (error_response 400 ''unsupported_grant_type''
                     ''Only authorization_code grant is supported'', s, log0)
             else
               (case map_of (authorizationCodes s) code of
                  None \<Rightarrow>
                    (error_response 400 ''invalid_grant'' ''Invalid or expired authorization code'',
                     s, log0 @ [AuthFailure ''invalid_authorization_code'' ip])
                | Some session \<Rightarrow>
                    (let burnt = s\<lparr>authorizationCodes := AList.delete code (authorizationCodes s)\<rparr>
                     in if \<not> verifyCodeChallenge code_verifier (codeChallenge session)
                                (codeChallengeMethod session)
                        then (error_response 400 ''invalid_grant'' ''Invalid code_verifier'',
                              burnt, log0 @ [AuthFailure ''invalid_code_verifier'' ip])
                        else if client_id \<noteq> clientId session
                        then (error_response 400 ''invalid_grant'' ''client_id mismatch'',
                              burnt, log0 @ [AuthFailure ''client_id_mismatch'' ip])
                        else if truthy (b_redirect_uri b) \<and>
                                b_redirect_uri b \<noteq> Some (redirectUri session)
                        then (error_response 400 ''invalid_grant'' ''redirect_uri mismatch'',
                              burnt, log0 @ [AuthFailure ''redirect_uri_mismatch'' ip])
                        else
                          (let accessToken = generateRandomString 48 randomBytes;
                               expiresIn = 3600;
                               tokenData = \<lparr>token = accessToken,
                                            t_clientId = client_id,
                                            t_scope = scope session,
                                            t_resource = resource session,
                                            expiresAt = now + expiresIn * 1000,
                                            t_createdAt = now'\<rparr>
                           in (Json 200 []
                                 (TokenBody accessToken ''Bearer'' expiresIn
                                    (if scope session = [] then None else Some (scope session))),
                               burnt\<lparr>accessTokens :=
                                        AList.update accessToken tokenData (accessTokens s)\<rparr>,
                               log0 @ [AuthAttempt True ip client_id,
                                       Info ''Issued access token:'']))))
         | _ \<Rightarrow> missing)"

subsection \<open>\<^verbatim>\<open>validateBearerToken\<close>\<close>

definition resourceMetadataUrl :: "string option \<Rightarrow> string" where
  "resourceMetadataUrl baseUrl =
     (case baseUrl of
        None \<Rightarrow> ''/.well-known/oauth-protected-resource''
      | Some b \<Rightarrow>
          if b = [] then ''/.well-known/oauth-protected-resource''
          else b @ ''/.well-known/oauth-protected-resource'')"

definition missing_header_response :: "string option \<Rightarrow> response" where
  "missing_header_response baseUrl =
     Json 401
       [(''WWW-Authenticate'',
         ''Bearer resource_metadata='' @ [CHR 0x22] @ resourceMetadataUrl baseUrl @ [CHR 0x22]
           @ '', scope='' @ [CHR 0x22] @ ''mcp'' @ [CHR 0x22])]
       (ErrorBody ''invalid_token'' ''Missing or invalid Authorization header'')"

definition validateBearerToken ::
  "string option \<Rightarrow> string option \<Rightarrow> string option \<Rightarrow> int \<Rightarrow> server_state \<Rightarrow> outcome" where
  "validateBearerToken baseUrl authHeader ip now s =
     (case authHeader of
        None \<Rightarrow> (missing_header_response baseUrl, s, [])
      | Some header \<Rightarrow>
          if header = [] \<or> \<not> startsWith header ''Bearer ''
          then (missing_header_response baseUrl, s, [])
          else
            (let tok = drop 7 header
             in case map_of (accessTokens s) tok of
                  None \<Rightarrow>
                    (error_response 401 ''invalid_token'' ''Invalid or expired access token'',
                     s, [AuthFailure ''invalid_access_token'' ip])
                | Some tokenData \<Rightarrow>
                    if now > expiresAt tokenData
                    then (error_response 401 ''invalid_token'' ''Token has expired'',
                          s\<lparr>accessTokens := AList.delete tok (accessTokens s)\<rparr>,
                          [AuthFailure ''expired_access_token'' ip])
                    else (Next, s, [Info ''Valid access token:''])))"

subsection \<open>The periodic sweep\<close>

text \<open>
  Each \<^verbatim>\<open>for\<close> loop walks the entries of a map and deletes from that same map; the
  first list argument is what is left to visit, the second the map being changed.
\<close>

fun sweep_codes ::
  "int \<Rightarrow> (string \<times> AuthorizationSession) list \<Rightarrow> (string \<times> AuthorizationSession) list
     \<Rightarrow> (string \<times> AuthorizationSession) list" where
  "sweep_codes now [] m = m"
| "sweep_codes now ((code, session) # entries) m =
     sweep_codes now entries
       (if now - createdAt session > 10 * 60 * 1000 then AList.delete code m else m)"

fun sweep_tokens ::
  "int \<Rightarrow> (string \<times> AccessToken) list \<Rightarrow> (string \<times> AccessToken) list
     \<Rightarrow> (string \<times> AccessToken) list" where
  "sweep_tokens now [] m = m"
| "sweep_tokens now ((tok, data) # entries) m =
     sweep_tokens now entries (if now > expiresAt data then AList.delete tok m else m)"

definition sweep :: "int \<Rightarrow> server_state \<Rightarrow> server_state" where
  "sweep now s =
     \<lparr>authorizationCodes = sweep_codes now (authorizationCodes s) (authorizationCodes s),
      accessTokens = sweep_tokens now (accessTokens s) (accessTokens s)\<rparr>"

subsection \<open>Runs of the server\<close>

text \<open>
  What can happen to the two maps: a request to one of the three entry points, or a
  tick of the sweep timer. Each event carries what the environment supplies (request
  data, random bytes, clock readings). The base URL given to the middleware only
  shapes a response header, so \<open>step\<close> passes it the server's own.
\<close>

datatype event =
    Authorize authorize_query "byte list" int
  | Token token_body "string option" "byte list" int int
  | Protected "string option" "string option" int
  | Sweep int

fun step :: "string \<Rightarrow> event \<Rightarrow> server_state \<Rightarrow> server_state" where
  "step baseUrl (Authorize q randomBytes now) s = fst (snd (handleAuthorize baseUrl q randomBytes now s))"
| "step baseUrl (Token b ip randomBytes now now') s = fst (snd (handleToken b ip randomBytes now now' s))"
| "step baseUrl (Protected authHeader ip now) s =
     fst (snd (validateBearerToken (Some baseUrl) authHeader ip now s))"
| "step baseUrl (Sweep now) s = sweep now s"

definition run :: "string \<Rightarrow> event list \<Rightarrow> server_state \<Rightarrow> server_state" where
  "run baseUrl evs s = fold (step baseUrl) evs s"

subsection \<open>Notions used in the statements\<close>

text \<open>An event issues the code \<open>c\<close> when it is an authorization request whose random draw is \<open>c\<close>.\<close>

fun issues :: "string \<Rightarrow> event \<Rightarrow> bool" where
  "issues c (Authorize q randomBytes now) = (generateRandomString 32 randomBytes = c)"
| "issues c _ = False"

text \<open>
  The host of a URI as the specification speaks of it (``the \<^verbatim>\<open>redirect_uri\<close> host''), to be
  compared with the prefix test of \<open>handleAuthorize\<close>: the authority is what stands between
  \<^verbatim>\<open>scheme://\<close> and the next \<^verbatim>\<open>/\<close>, \<^verbatim>\<open>?\<close> or \<^verbatim>\<open>#\<close>; the host is the authority
  without user information and port.
\<close>

definition spec_uri_host :: "string \<Rightarrow> string option" where
  "spec_uri_host uri =
     (let r = dropWhile (\<lambda>c. c \<noteq> CHR '':'') uri
      in if take 3 r = ''://''
         then (let authority = takeWhile (\<lambda>c. c \<noteq> CHR ''/'' \<and> c \<noteq> CHR ''?'' \<and> c \<noteq> CHR ''#'') (drop 3 r);
                   hostport = rev (takeWhile (\<lambda>c. c \<noteq> CHR ''@'') (rev authority))
               in Some (takeWhile (\<lambda>c. c \<noteq> CHR '':'') hostport))
         else None)"

definition spec_allowed_hosts :: "string list" where
  "spec_allowed_hosts = [''claude.ai'', ''claude.com'']"

text \<open>
  Concrete data for the examples. Verifier and challenge are the pair of RFC 7636,
  Appendix B. The authorization request is the one of the end-to-end scenario (client
  \<^verbatim>\<open>abc\<close>, callback \<^verbatim>\<open>https://claude.ai/cb\<close>, state \<^verbatim>\<open>xyz\<close>); then the matching token
  request, two random buffers with the strings drawn from them, the state of a server
  that has answered the authorization request at time 0, and its state after it has
  also answered the token request at time 0.
\<close>

definition example_verifier :: string where
  "example_verifier = ''dBjftJeZ4CVP-mB92K27uhbUJU1p1r_wW1gFWFOEjXk''"

definition example_challenge :: string where
  "example_challenge = ''E9Melhoa2OwvFrEMTJguCHaoeK1t8URWbuGJSstw-cM''"

definition example_query :: authorize_query where
  "example_query =
     \<lparr>q_client_id = Some ''abc'', q_redirect_uri = Some ''https://claude.ai/cb'',
      q_response_type = Some ''code'',
      q_code_challenge = Some example_challenge,
      q_code_challenge_method = Some ''S256'',
      q_state = Some ''xyz'', q_scope = None, q_resource = None\<rparr>"

definition example_code_bytes :: "byte list" where
  "example_code_bytes =
     [0x3a, 0x91, 0x5c, 0x07, 0xe2, 0x4d, 0xb8, 0x16, 0x7f, 0xc3, 0x29, 0x80, 0x5e, 0xa4, 0x0b, 0xd7,
      0x62, 0x1d, 0xf9, 0x34, 0x8a, 0x50, 0xcb, 0x2e, 0x97, 0x03, 0x6c, 0xe8, 0x45, 0xb1, 0x1a, 0xde]"

definition example_code :: string where
  "example_code = ''OpFcB-JNuBZ_wymAXqQL12Id-TSKUMsu''"

definition example_token_bytes :: "byte list" where
  "example_token_bytes =
     [0x11, 0x22, 0x33, 0x44, 0x55, 0x66, 0x77, 0x88, 0x99, 0xaa, 0xbb, 0xcc,
      0xdd, 0xee, 0xff, 0x00, 0x13, 0x57, 0x9b, 0xdf, 0x02, 0x46, 0x8a, 0xce,
      0x10, 0x32, 0x54, 0x76, 0x98, 0xba, 0xdc, 0xfe, 0x0f, 0x1e, 0x2d, 0x3c,
      0x4b, 0x5a, 0x69, 0x78, 0x87, 0x96, 0xa5, 0xb4, 0xc3, 0xd2, 0xe1, 0xf0]"

definition example_token :: string where
  "example_token = ''ESIzRFVmd4iZqrvM3e7_ABNXm98CRorOEDJUdpi63P4PHi08''"

definition example_body :: token_body where
  "example_body =
     \<lparr>b_grant_type = Some ''authorization_code'', b_code = Some example_code,
      b_code_verifier = Some example_verifier, b_client_id = Some ''abc'',
      b_redirect_uri = None, b_resource = None\<rparr>"

definition example_baseUrl :: string where
  "example_baseUrl = ''https://mcp.example.com''"

definition example_state :: server_state where
  "example_state =
     fst (snd (handleAuthorize example_baseUrl example_query example_code_bytes 0 initial_state))"

definition example_issued_state :: server_state where
  "example_issued_state =
     fst (snd (handleToken example_body None example_token_bytes 0 0 example_state))"

text \<open>
  Intermediate values of SHA-256 on two one-block messages, the verifier above and the
  message \<^verbatim>\<open>abc\<close> of the standard's first example: the padded block and the message
  schedule.
\<close>

definition rfc7636_block :: "byte list" where
  "rfc7636_block =
    [100, 66, 106, 102, 116, 74, 101, 90, 52, 67, 86, 80, 45, 109, 66, 57,
     50, 75, 50, 55, 117, 104, 98, 85, 74, 85, 49, 112, 49, 114, 95, 119,
     87, 49, 103, 70, 87, 70, 79, 69, 106, 88, 107, 128, 0, 0, 0, 0,
     0, 0, 0, 0, 0, 0, 0, 0, 0, 0, 0, 0, 0, 0, 1, 88]"

definition rfc7636_schedule :: "word32 list" where
  "rfc7636_schedule =
    [1682074214, 1951032666, 876828240, 762135097, 843788855, 1969775189,
     1247097200, 829579127, 1462855494, 1464225605, 1784179584, 0,
     0, 0, 0, 344, 3737124638, 1386132048,
     1545055071, 1636041625, 267449454, 2626846496, 782225423, 1612690371,
     3480551333, 4200562101, 2884760196, 1631832617, 1674230810, 3404307594,
     437011231, 2802368253, 2305649075, 2802210646, 356463710, 2276557634,
     618620203, 2551500691, 2585092433, 1430510983, 1056047589, 93174362,
     549822574, 2286070390, 3422339793, 2466830788, 677426103, 2320265331,
     186514594, 4051385571, 3564328168, 3642276296, 2157642169, 4102264120,
     4170240445, 1715669472, 2104546194, 1880716777, 3288856930, 663703457,
     1902297551, 561519983, 2980560961, 1328313667]"

definition abc_block :: "byte list" where
  "abc_block =
    [97, 98, 99, 128, 0, 0, 0, 0, 0, 0, 0, 0, 0, 0, 0, 0,
     0, 0, 0, 0, 0, 0, 0, 0, 0, 0, 0, 0, 0, 0, 0, 0,
     0, 0, 0, 0, 0, 0, 0, 0, 0, 0, 0, 0, 0, 0, 0, 0,
     0, 0, 0, 0, 0, 0, 0, 0, 0, 0, 0, 0, 0, 0, 0, 24]"

definition abc_schedule :: "word32 list" where
  "abc_schedule =
    [1633837952, 0, 0, 0, 0, 0,
     0, 0, 0, 0, 0, 0,
     0, 0, 0, 24, 1633837952, 983040,
     2108187653, 1610613702, 1050508152, 25426944, 316456923, 3806512014,
     3357629466, 3073800610, 3854317833, 845560923, 2636160359, 3968280267,
     1881225380, 3552024379, 2482346367, 996719219, 2952069057, 4043988066,
     176896406, 1924104970, 2483675966, 610538786, 2672279444, 4037431130,
     1042573945, 657669027, 206005234, 2215296807, 2049510749, 106709978,
     4215179723, 3430291419, 3118885940, 2845390439, 2226839261, 3256115900,
     344409900, 2987358873, 4015503821, 3957764664, 2682456414, 2025622859,
     2755645205, 1720397816, 4004225740, 313650667]"

section \<open>Auxiliary facts\<close>

subsection \<open>Shape of the generated strings\<close>

lemma digest_bytes_length: "length (digest_bytes hs) = 32"
  by (cases hs) (simp add: word_bytes_def)

lemma sha256_length: "length (sha256 msg) = 32"
  by (simp add: sha256_def Let_def digest_bytes_length)

lemma base64url_nat_length: "length (base64url_nat ns) = (4 * length ns + 2) div 3"
  by (induction ns rule: base64url_nat.induct) simp_all

lemma sha256_base64url_length: "length (sha256_base64url v) = 43"
  by (simp add: sha256_base64url_def base64url_def base64url_nat_length sha256_length)

lemma generateRandomString_length:
  "length randomBytes = len \<Longrightarrow> length (generateRandomString len randomBytes) = len"
  by (simp add: generateRandomString_def base64url_def base64url_nat_length)

lemma example_code_drawn: "generateRandomString 32 example_code_bytes = example_code"
  by code_simp

lemma example_token_drawn: "generateRandomString 48 example_token_bytes = example_token"
  by code_simp

lemma sha256_base64url_nonempty: "sha256_base64url v \<noteq> []"
  using sha256_base64url_length [of v] by auto

subsection \<open>Two hashes computed\<close>

text \<open>
  The compression function is evaluated sixteen rounds at a time; \<open>fold_split\<close> puts the
  four pieces together.
\<close>

lemma fold_split: "fold f xs s = fold f (drop n xs) (fold f (take n xs) s)"
  by (metis append_take_drop_id fold_append comp_apply)

lemma rfc7636_blocks:
  "blocks (length (pad (map of_char example_verifier)) div 64) (pad (map of_char example_verifier)) = [rfc7636_block]"
  by code_simp

lemma rfc7636_schedule_eq: "extend_schedule 48 (be_words rfc7636_block) = rfc7636_schedule"
  by code_simp

lemma rfc7636_rounds_16:
  "fold sha_round (take 16 (zip round_constants rfc7636_schedule)) initial_hash =
     HashState 641124843 257023227 1210501889 850047385 541302165 3812714564 1564234105 1666808007"
  by code_simp

lemma rfc7636_rounds_32:
  "fold sha_round (take 16 (drop 16 (zip round_constants rfc7636_schedule)))
     (HashState 641124843 257023227 1210501889 850047385 541302165 3812714564 1564234105 1666808007) =
     HashState 2798556854 918560565 2993426826 265419590 2871511288 2249040181 2789771253 1567214932"
  by code_simp

lemma rfc7636_rounds_48:
  "fold sha_round (take 16 (drop 16 (drop 16 (zip round_constants rfc7636_schedule))))
     (HashState 2798556854 918560565 2993426826 265419590 2871511288 2249040181 2789771253 1567214932) =
     HashState 4292107201 3432519761 2180298054 2815373003 1155272145 398707073 2183671599 3122742861"
  by code_simp

lemma rfc7636_rounds_64:
  "fold sha_round (drop 16 (drop 16 (drop 16 (zip round_constants rfc7636_schedule))))
     (HashState 4292107201 3432519761 2180298054 2815373003 1155272145 398707073 2183671599 3122742861) =
     HashState 2848536623 1588800103 4071079322 2806528206 630859310 3538672586 1331539871 1871719594"
  by code_simp

lemma rfc7636_digest:
  "base64url (digest_bytes (hash_add initial_hash
     (HashState 2848536623 1588800103 4071079322 2806528206 630859310 3538672586 1331539871 1871719594))) =
     ''E9Melhoa2OwvFrEMTJguCHaoeK1t8URWbuGJSstw-cM''"
  by code_simp

lemma rfc7636_hash: "sha256_base64url example_verifier = ''E9Melhoa2OwvFrEMTJguCHaoeK1t8URWbuGJSstw-cM''"
proof -
  have "fold sha_round (zip round_constants rfc7636_schedule) initial_hash =
          HashState 2848536623 1588800103 4071079322 2806528206 630859310 3538672586 1331539871 1871719594"
    by (simp only: fold_split [where n = 16 and xs = "zip round_constants rfc7636_schedule"]
          fold_split [where n = 16 and xs = "drop 16 (zip round_constants rfc7636_schedule)"]
          fold_split [where n = 16 and xs = "drop 16 (drop 16 (zip round_constants rfc7636_schedule))"]
          rfc7636_rounds_16 rfc7636_rounds_32 rfc7636_rounds_48 rfc7636_rounds_64)
  then show ?thesis
    by (simp only: sha256_base64url_def sha256_def Let_def rfc7636_blocks fold_simps id_apply
          compress_def rfc7636_schedule_eq rfc7636_digest)
qed

lemma abc_blocks:
  "blocks (length (pad (map of_char ''abc'')) div 64) (pad (map of_char ''abc'')) = [abc_block]"
  by code_simp

lemma abc_schedule_eq: "extend_schedule 48 (be_words abc_block) = abc_schedule"
  by code_simp

lemma abc_rounds_16:
  "fold sha_round (take 16 (zip round_constants abc_schedule)) initial_hash =
     HashState 2969183118 3227803614 3643992854 2274437520 123276749 194179596 1952073950 509051416"
  by code_simp

lemma abc_rounds_32:
  "fold sha_round (take 16 (drop 16 (zip round_constants abc_schedule)))
     (HashState 2969183118 3227803614 3643992854 2274437520 123276749 194179596 1952073950 509051416) =
     HashState 1941126133 3935906338 2684750640 909411017 3126399250 17410874 2917635127 1628611511"
  by code_simp

lemma abc_rounds_48:
  "fold sha_round (take 16 (drop 16 (drop 16 (zip round_constants abc_schedule))))
     (HashState 1941126133 3935906338 2684750640 909411017 3126399250 17410874 2917635127 1628611511) =
     HashState 1098003085 2706117808 1923828625 643991573 4274981830 3581645993 3077922209 2819559920"
  by code_simp

lemma abc_rounds_64:
  "fold sha_round (drop 16 (drop 16 (drop 16 (zip round_constants abc_schedule))))
     (HashState 1098003085 2706117808 1923828625 643991573 4274981830 3581645993 3077922209 2819559920) =
     HashState 1349398616 3550093669 80891244 3093179625 1593118500 4212265488 2492278198 2518632596"
  by code_simp

lemma abc_digest:
  "base64url (digest_bytes (hash_add initial_hash
     (HashState 1349398616 3550093669 80891244 3093179625 1593118500 4212265488 2492278198 2518632596))) =
     ''ungWv48Bz-pBQUDeXa4iI7ADYaOWF3qctBD_YfIAFa0''"
  by code_simp

lemma abc_hash: "sha256_base64url ''abc'' = ''ungWv48Bz-pBQUDeXa4iI7ADYaOWF3qctBD_YfIAFa0''"
proof -
  have "fold sha_round (zip round_constants abc_schedule) initial_hash =
          HashState 1349398616 3550093669 80891244 3093179625 1593118500 4212265488 2492278198 2518632596"
    by (simp only: fold_split [where n = 16 and xs = "zip round_constants abc_schedule"]
          fold_split [where n = 16 and xs = "drop 16 (zip round_constants abc_schedule)"]
          fold_split [where n = 16 and xs = "drop 16 (drop 16 (zip round_constants abc_schedule))"]
          abc_rounds_16 abc_rounds_32 abc_rounds_48 abc_rounds_64)
  then show ?thesis
    by (simp only: sha256_base64url_def sha256_def Let_def abc_blocks fold_simps id_apply
          compress_def abc_schedule_eq abc_digest)
qed

lemma example_verifier_hash: "sha256_base64url example_verifier = example_challenge"
  by (simp add: rfc7636_hash example_challenge_def)

lemma abc_not_example_challenge: "sha256_base64url ''abc'' \<noteq> example_challenge"
  by (simp add: abc_hash example_challenge_def)

subsection \<open>What each event does to the pending sessions\<close>

lemma sweep_codes_absent:
  "map_of m k = None \<Longrightarrow> map_of (sweep_codes now es m) k = None"
  by (induction now es m rule: sweep_codes.induct) (simp_all add: delete_conv')

lemma sweep_codes_Some:
  "map_of (sweep_codes now es m) k = Some v \<Longrightarrow> map_of m k = Some v"
  by (induction now es m rule: sweep_codes.induct) (auto simp: delete_conv' split: if_splits)

lemma sweep_codes_eq:
  "authorizationCodes (sweep now s) = sweep_codes now (authorizationCodes s) (authorizationCodes s)"
  by (simp add: sweep_def)

lemma handleAuthorize_absent:
  "map_of (authorizationCodes s) c = None \<Longrightarrow> generateRandomString 32 rb \<noteq> c \<Longrightarrow>
   map_of (authorizationCodes (fst (snd (handleAuthorize baseUrl q rb now s)))) c = None"
  by (simp add: handleAuthorize_def Let_def update_conv' split: option.splits)

lemma handleAuthorize_S256:
  "map_of (authorizationCodes (fst (snd (handleAuthorize baseUrl q rb now s)))) c = Some session \<Longrightarrow>
   map_of (authorizationCodes s) c = Some session \<or> codeChallengeMethod session = ''S256''"
  by (auto simp add: handleAuthorize_def Let_def update_conv' split: option.splits if_splits)

lemma handleToken_absent:
  "map_of (authorizationCodes s) c = None \<Longrightarrow>
   map_of (authorizationCodes (fst (snd (handleToken b ip rb now now' s)))) c = None"
  by (simp add: handleToken_def Let_def delete_conv' split: option.splits)

lemma handleToken_Some:
  "map_of (authorizationCodes (fst (snd (handleToken b ip rb now now' s)))) c = Some session \<Longrightarrow>
   map_of (authorizationCodes s) c = Some session"
  by (auto simp add: handleToken_def Let_def delete_conv' split: option.splits if_splits)

lemma validateBearerToken_codes:
  "authorizationCodes (fst (snd (validateBearerToken baseUrl h ip now s))) = authorizationCodes s"
  by (simp add: validateBearerToken_def Let_def split: option.splits)

lemma step_absent:
  "map_of (authorizationCodes s) c = None \<Longrightarrow> \<not> issues c ev \<Longrightarrow>
   map_of (authorizationCodes (step baseUrl ev s)) c = None"
  by (cases ev)
    (simp_all add: handleAuthorize_absent handleToken_absent validateBearerToken_codes
       sweep_codes_eq sweep_codes_absent)

lemma run_absent:
  "map_of (authorizationCodes s) c = None \<Longrightarrow> \<forall>ev \<in> set evs. \<not> issues c ev \<Longrightarrow>
   map_of (authorizationCodes (run baseUrl evs s)) c = None"
  unfolding run_def
  by (induction evs arbitrary: s) (simp_all add: step_absent)

lemma step_S256:
  "map_of (authorizationCodes (step baseUrl ev s)) c = Some session \<Longrightarrow>
   map_of (authorizationCodes s) c = Some session \<or> codeChallengeMethod session = ''S256''"
  by (cases ev)
    (auto simp add: validateBearerToken_codes sweep_codes_eq
       dest: handleAuthorize_S256 handleToken_Some sweep_codes_Some)

subsection \<open>The token endpoint, case by case\<close>

lemma handleToken_unknown_code:
  assumes "b_code b = Some c" and "map_of (authorizationCodes s) c = None"
  shows "fst (handleToken b ip rb now now' s) =
           (if \<not> (truthy (b_grant_type b) \<and> c \<noteq> [] \<and> truthy (b_code_verifier b) \<and>
                   truthy (b_client_id b))
            then error_response 400 ''invalid_request'' ''Missing required parameters''
            else if b_grant_type b \<noteq> Some ''authorization_code''
            then error_response 400 ''unsupported_grant_type''
                   ''Only authorization_code grant is supported''
            else error_response 400 ''invalid_grant'' ''Invalid or expired authorization code'')"
    and "fst (snd (handleToken b ip rb now now' s)) = s"
  using assms by (auto simp add: handleToken_def Let_def split: option.splits)

lemma handleToken_ok_burns:
  assumes "fst (handleToken b ip rb now now' s) = Json 200 hs body" and "b_code b = Some c"
  shows "c \<noteq> [] \<and>
         map_of (authorizationCodes (fst (snd (handleToken b ip rb now now' s)))) c = None"
  using assms
  by (auto simp add: handleToken_def Let_def error_response_def delete_conv'
      split: option.splits if_splits)

lemma handleToken_success:
  assumes "b_grant_type b = Some ''authorization_code''"
    and "b_code b = Some code" and "code \<noteq> []"
    and "b_code_verifier b = Some code_verifier" and "code_verifier \<noteq> []"
    and "b_client_id b = Some client_id" and "client_id \<noteq> []"
    and "map_of (authorizationCodes s) code = Some session"
    and "verifyCodeChallenge code_verifier (codeChallenge session) (codeChallengeMethod session)"
    and "client_id = clientId session"
    and "\<not> truthy (b_redirect_uri b) \<or> b_redirect_uri b = Some (redirectUri session)"
  shows "handleToken b ip rb now now' s =
           (Json 200 []
              (TokenBody (generateRandomString 48 rb) ''Bearer'' 3600
                 (if scope session = [] then None else Some (scope session))),
            \<lparr>authorizationCodes = AList.delete code (authorizationCodes s),
             accessTokens =
               AList.update (generateRandomString 48 rb)
                 \<lparr>token = generateRandomString 48 rb, t_clientId = clientId session,
                  t_scope = scope session, t_resource = resource session,
                  expiresAt = now + 3600000, t_createdAt = now'\<rparr>
                 (accessTokens s)\<rparr>,
            [Info ''OAuth /token request:'', AuthAttempt True ip client_id,
             Info ''Issued access token:''])"
  using assms by (auto simp add: handleToken_def Let_def)


subsection \<open>The example server\<close>

lemma example_state_eq:
  "example_state =
     \<lparr>authorizationCodes =
        [(example_code,
          \<lparr>codeChallenge = example_challenge, codeChallengeMethod = ''S256'',
           redirectUri = ''https://claude.ai/cb'', clientId = ''abc'', scope = [],
           state = ''xyz'', resource = example_baseUrl, createdAt = 0\<rparr>)],
      accessTokens = []\<rparr>"
  by (simp add: example_state_def handleAuthorize_def example_query_def initial_state_def
      startsWith_def example_code_drawn example_challenge_def Let_def)

lemma example_exchange:
  "handleToken example_body ip example_token_bytes now now' example_state =
     (Json 200 [] (TokenBody example_token ''Bearer'' 3600 None),
      \<lparr>authorizationCodes = [],
       accessTokens =
         [(example_token,
           \<lparr>token = example_token, t_clientId = ''abc'', t_scope = [],
            t_resource = example_baseUrl,
            expiresAt = now + 3600000, t_createdAt = now'\<rparr>)]\<rparr>,
      [Info ''OAuth /token request:'', AuthAttempt True ip ''abc'',
       Info ''Issued access token:''])"
proof -
  let ?session = "\<lparr>codeChallenge = example_challenge, codeChallengeMethod = ''S256'',
           redirectUri = ''https://claude.ai/cb'', clientId = ''abc'', scope = [],
           state = ''xyz'', resource = example_baseUrl, createdAt = 0\<rparr>"
  have ne: "example_code \<noteq> []" "example_verifier \<noteq> []"
    by (simp_all add: example_code_def example_verifier_def)
  have v: "verifyCodeChallenge example_verifier (codeChallenge ?session) (codeChallengeMethod ?session)"
    by (simp add: verifyCodeChallenge_def example_verifier_hash)
  have "handleToken example_body ip example_token_bytes now now' example_state =
          (Json 200 []
              (TokenBody (generateRandomString 48 example_token_bytes) ''Bearer'' 3600
                 (if scope ?session = [] then None else Some (scope ?session))),
            \<lparr>authorizationCodes = AList.delete example_code (authorizationCodes example_state),
             accessTokens =
               AList.update (generateRandomString 48 example_token_bytes)
                 \<lparr>token = generateRandomString 48 example_token_bytes, t_clientId = clientId ?session,
                  t_scope = scope ?session, t_resource = resource ?session,
                  expiresAt = now + 3600000, t_createdAt = now'\<rparr>
                 (accessTokens example_state)\<rparr>,
            [Info ''OAuth /token request:'', AuthAttempt True ip ''abc'',
             Info ''Issued access token:''])"
    by (rule handleToken_success [where code_verifier = example_verifier])
       (use ne v in \<open>simp_all add: example_body_def example_state_eq\<close>)
  then show ?thesis
    by (simp add: example_token_drawn example_state_eq)
qed

lemma example_issued_state_eq:
  "example_issued_state =
     \<lparr>authorizationCodes = [],
      accessTokens =
        [(example_token,
          \<lparr>token = example_token, t_clientId = ''abc'', t_scope = [],
           t_resource = example_baseUrl, expiresAt = 3600000, t_createdAt = 0\<rparr>)]\<rparr>"
  by (simp add: example_issued_state_def example_exchange)

lemma sweep_example_state: "sweep 541500 example_state = example_state"
  by (simp add: sweep_def example_state_eq)

subsection \<open>Runs\<close>

lemma run_S256:
  assumes "\<And>c session. map_of (authorizationCodes s) c = Some session \<Longrightarrow>
             codeChallengeMethod session = ''S256''"
    and "map_of (authorizationCodes (run baseUrl evs s)) c = Some session"
  shows "codeChallengeMethod session = ''S256''"
  using assms unfolding run_def
proof (induction evs arbitrary: s c session)
  case Nil
  then show ?case by simp
next
  case (Cons ev evs)
  have "codeChallengeMethod session' = ''S256''"
    if "map_of (authorizationCodes (step baseUrl ev s)) c' = Some session'" for c' session'
    using step_S256 [OF that] Cons.prems(1) by blast
  with Cons.IH [of "step baseUrl ev s" c session] Cons.prems(2) show ?case by simp
qed


section \<open>The claims\<close>

subsection \<open>C1: an authorization code is used once\<close>

text \<open>
  Claim C1 says that after a successful exchange of a code, any second exchange attempt
  presenting the same code, with any \<open>grant_type\<close>, verifier or \<open>client_id\<close>, receives
  HTTP 400 with error \<open>invalid_grant\<close>. The handler checks the required fields and the
  grant type before it looks the code up, so a replay with another grant type is
  answered \<open>unsupported_grant_type\<close>: here the example server exchanges its code, and the
  same request sent again with \<open>grant_type = refresh_token\<close> gets that answer.
\<close>

theorem one_time_use_counterexample:
  "fst (handleToken example_body None example_token_bytes 1000 1000 example_state) =
     Json 200 [] (TokenBody example_token ''Bearer'' 3600 None)
   \<and> fst (handleToken (example_body\<lparr>b_grant_type := Some ''refresh_token''\<rparr>) None
           example_token_bytes 2000 2000
           (fst (snd (handleToken example_body None example_token_bytes 1000 1000 example_state)))) =
     Json 400 [] (ErrorBody ''unsupported_grant_type''
       ''Only authorization_code grant is supported'')"
proof -
  have "fst (handleToken (example_body\<lparr>b_grant_type := Some ''refresh_token''\<rparr>) None
               example_token_bytes 2000 2000 st) =
          Json 400 [] (ErrorBody ''unsupported_grant_type''
            ''Only authorization_code grant is supported'')" for st
    by (simp add: handleToken_def example_body_def example_code_def example_verifier_def
        error_response_def)
  then show ?thesis
    by (simp add: example_exchange)
qed

text \<open>
  Claim C1, amended. Let a \<open>POST /token\<close> request for the code \<open>c\<close> be answered 200,
  and let any events follow in which no authorization request draws \<open>c\<close> again. Then
  every later \<open>POST /token\<close> presenting \<open>c\<close> is answered HTTP 400 and changes neither
  store. The error is \<open>invalid_grant\<close> when the request carries a non-empty
  \<open>grant_type\<close>, \<open>code_verifier\<close> and \<open>client_id\<close> and its grant type is
  \<open>authorization_code\<close>, whatever the verifier and the client; otherwise it is the error
  of the earlier check that fails, \<open>invalid_request\<close> for a missing field or
  \<open>unsupported_grant_type\<close> for another grant type.
\<close>

theorem one_time_use:
  assumes first: "fst (handleToken b ip rb now now' s) = Json 200 hs body"
    and code: "b_code b = Some c"
    and later: "\<forall>ev \<in> set evs. \<not> issues c ev"
    and again: "b_code b2 = Some c"
  shows "fst (handleToken b2 ip2 rb2 t t'
                (run baseUrl evs (fst (snd (handleToken b ip rb now now' s))))) =
           (if \<not> (truthy (b_grant_type b2) \<and> truthy (b_code_verifier b2) \<and>
                   truthy (b_client_id b2))
            then Json 400 [] (ErrorBody ''invalid_request'' ''Missing required parameters'')
            else if b_grant_type b2 \<noteq> Some ''authorization_code''
            then Json 400 [] (ErrorBody ''unsupported_grant_type''
                   ''Only authorization_code grant is supported'')
            else Json 400 [] (ErrorBody ''invalid_grant''
                   ''Invalid or expired authorization code''))
         \<and> fst (snd (handleToken b2 ip2 rb2 t t'
                (run baseUrl evs (fst (snd (handleToken b ip rb now now' s)))))) =
             run baseUrl evs (fst (snd (handleToken b ip rb now now' s)))"
proof -
  let ?s' = "fst (snd (handleToken b ip rb now now' s))"
  from handleToken_ok_burns [OF first code]
  have ne: "c \<noteq> []" and gone: "map_of (authorizationCodes ?s') c = None"
    by simp_all
  from run_absent [OF gone later]
  have absent: "map_of (authorizationCodes (run baseUrl evs ?s')) c = None" .
  show ?thesis
    using handleToken_unknown_code [OF again absent] ne by (simp add: error_response_def)
qed

theorem one_time_use_witness:
  "fst (handleToken example_body None example_token_bytes 1000 1000 example_state) =
     Json 200 [] (TokenBody example_token ''Bearer'' 3600 None)
   \<and> \<not> issues example_code (Sweep 60000)
   \<and> \<not> issues example_code (Protected (Some (''Bearer '' @ example_token)) None 61000)
   \<and> fst (handleToken example_body None example_token_bytes 62000 62000
           (run example_baseUrl
              [Sweep 60000, Protected (Some (''Bearer '' @ example_token)) None 61000]
              (fst (snd (handleToken example_body None example_token_bytes 1000 1000
                           example_state))))) =
       Json 400 [] (ErrorBody ''invalid_grant'' ''Invalid or expired authorization code'')"
proof -
  have first: "fst (handleToken example_body None example_token_bytes 1000 1000 example_state) =
                 Json 200 [] (TokenBody example_token ''Bearer'' 3600 None)"
    by (simp add: example_exchange)
  have code: "b_code example_body = Some example_code"
    by (simp add: example_body_def)
  have later: "\<forall>ev \<in> set [Sweep 60000,
                 Protected (Some (''Bearer '' @ example_token)) None 61000].
                 \<not> issues example_code ev"
    by simp
  have fields: "truthy (b_grant_type example_body)" "truthy (b_code_verifier example_body)"
    "truthy (b_client_id example_body)" "b_grant_type example_body = Some ''authorization_code''"
    by (simp_all add: example_body_def example_verifier_def)
  from one_time_use [OF first code later code] fields first show ?thesis
    by simp
qed

subsection \<open>C2: a stale session at the token endpoint\<close>

text \<open>
  Claim C2 asks that a session created at time \<open>T\<close> be refused by \<open>POST /token\<close> at any
  time from \<open>T\<close> plus ten minutes and one second on, whenever the sweep last ran.
  \<open>handleToken\<close> never reads \<open>createdAt\<close>, and the sweep, which ticks once a minute,
  removes a session only when it is older than ten minutes at a tick. Here the server
  answers the example authorization request at time 0, the sweep ticks at 541500 ms
  and keeps the session (its next tick is due at 601500 ms), and the token request at
  601000 ms is answered 200 with an access token.
\<close>

theorem stale_session_still_exchanged:
  "run example_baseUrl [Authorize example_query example_code_bytes 0, Sweep 541500] initial_state =
     example_state
   \<and> map_of (authorizationCodes example_state) example_code =
       Some \<lparr>codeChallenge = example_challenge, codeChallengeMethod = ''S256'',
             redirectUri = ''https://claude.ai/cb'', clientId = ''abc'', scope = [],
             state = ''xyz'', resource = example_baseUrl, createdAt = 0\<rparr>
   \<and> fst (handleToken example_body None example_token_bytes 601000 601000
            (run example_baseUrl [Authorize example_query example_code_bytes 0, Sweep 541500]
               initial_state)) =
       Json 200 [] (TokenBody example_token ''Bearer'' 3600 None)"
proof -
  have "run example_baseUrl [Authorize example_query example_code_bytes 0, Sweep 541500]
          initial_state = sweep 541500 example_state"
    by (simp add: run_def example_state_def)
  then have "run example_baseUrl [Authorize example_query example_code_bytes 0, Sweep 541500]
          initial_state = example_state"
    by (simp add: sweep_example_state)
  then show ?thesis
    by (simp add: example_exchange) (simp add: example_state_eq)
qed

subsection \<open>C3: a failed verifier burns the code\<close>



subsection \<open>C4: the PKCE verifier\<close>

text \<open>
  Claim C4. \<open>verifyCodeChallenge\<close> is true on \<open>(v, base64url(sha256(v)), S256)\<close> for every
  string \<open>v\<close>; true on \<open>(v, v, plain)\<close> for every \<open>v\<close>; false under \<open>S256\<close> whenever the
  encoded hash of the verifier differs from the challenge; and false for every verifier
  and challenge under any method other than \<open>S256\<close> and \<open>plain\<close>. It has no side
  effect: it is a function of its three arguments to a truth value, and takes and
  returns no server state.
\<close>

theorem verifyCodeChallenge_correct:
  "verifyCodeChallenge v (sha256_base64url v) ''S256'' \<and>
   verifyCodeChallenge v v ''plain'' \<and>
   (sha256_base64url v \<noteq> c \<longrightarrow> \<not> verifyCodeChallenge v c ''S256'') \<and>
   (m \<noteq> ''S256'' \<and> m \<noteq> ''plain'' \<longrightarrow> \<not> verifyCodeChallenge v c m)"
  by (simp add: verifyCodeChallenge_def)

theorem verifyCodeChallenge_correct_witness:
  "verifyCodeChallenge ''abc'' (sha256_base64url ''abc'') ''S256'' \<and>
   verifyCodeChallenge ''abc'' ''abc'' ''plain'' \<and>
   sha256_base64url ''abc'' \<noteq> example_challenge \<and>
   \<not> verifyCodeChallenge ''abc'' example_challenge ''S256'' \<and>
   \<not> verifyCodeChallenge ''abc'' example_challenge ''S512''"
  using verifyCodeChallenge_correct [of "''abc''" example_challenge "''S512''"]
    abc_not_example_challenge
  by simp

subsection \<open>C5: an expired token at the middleware\<close>

text \<open>
  Claim C5. For every access token present in the token store with \<open>now\<close> strictly
  greater than its \<open>expiresAt\<close>, a protected request bearing that token is answered
  HTTP 401 \<open>invalid_token\<close> with the description ``Token has expired'', the token is
  deleted from the store, and an \<open>authFailure\<close> is logged; the request does not
  reach the protected handler, and afterwards the token is absent.
\<close>

theorem expired_token_rejected:
  assumes "map_of (accessTokens s) tok = Some tokenData"
    and "now > expiresAt tokenData"
  shows "validateBearerToken baseUrl (Some (''Bearer '' @ tok)) ip now s =
           (Json 401 [] (ErrorBody ''invalid_token'' ''Token has expired''),
            s\<lparr>accessTokens := AList.delete tok (accessTokens s)\<rparr>,
            [AuthFailure ''expired_access_token'' ip])
         \<and> map_of (AList.delete tok (accessTokens s)) tok = None
         \<and> fst (validateBearerToken baseUrl (Some (''Bearer '' @ tok)) ip now s) \<noteq> Next"
  using assms
  by (simp add: validateBearerToken_def startsWith_def error_response_def delete_conv')

theorem expired_token_rejected_witness:
  "map_of (accessTokens example_issued_state) example_token =
     Some \<lparr>token = example_token, t_clientId = ''abc'', t_scope = [],
           t_resource = example_baseUrl, expiresAt = 3600000, t_createdAt = 0\<rparr>
   \<and> validateBearerToken None (Some (''Bearer '' @ example_token)) None 3600001
         example_issued_state =
       (Json 401 [] (ErrorBody ''invalid_token'' ''Token has expired''),
        \<lparr>authorizationCodes = [], accessTokens = []\<rparr>,
        [AuthFailure ''expired_access_token'' None])"
  using expired_token_rejected [of example_issued_state example_token
      "\<lparr>token = example_token, t_clientId = ''abc'', t_scope = [],
        t_resource = example_baseUrl, expiresAt = 3600000, t_createdAt = 0\<rparr>" 3600001 None None]
  by (simp add: example_issued_state_eq)

subsection \<open>C6: the redirect URI check\<close>

text \<open>
  Claim C6 says that a request which passes the first three checks is rejected exactly
  when the host of its \<open>redirect_uri\<close> is not one of \<open>claude.ai\<close>, \<open>claude.com\<close>. The
  handler compares the beginning of the string with \<^verbatim>\<open>https://claude.ai/\<close> and
  \<^verbatim>\<open>https://claude.com/\<close>, which asks for more than the host. The URI
  \<^verbatim>\<open>https://claude.ai\<close> has the host \<open>claude.ai\<close>, and the example request with this
  \<open>redirect_uri\<close> is rejected.
\<close>

theorem redirect_host_counterexample:
  "spec_uri_host ''https://claude.ai'' = Some ''claude.ai''
   \<and> ''claude.ai'' \<in> set spec_allowed_hosts
   \<and> handleAuthorize example_baseUrl (example_query\<lparr>q_redirect_uri := Some ''https://claude.ai''\<rparr>)
         example_code_bytes 0 initial_state =
       (Json 400 [] (ErrorBody ''invalid_request'' ''Invalid redirect_uri''), initial_state,
        [Info ''OAuth /authorize request:''])"
  by (simp add: spec_uri_host_def spec_allowed_hosts_def handleAuthorize_def example_query_def
      example_challenge_def startsWith_def error_response_def)

text \<open>
  Claim C6, amended. A \<open>GET /authorize\<close> request that passes the first three checks
  (the five required parameters non-empty, \<open>response_type = code\<close>,
  \<open>code_challenge_method = S256\<close>) is rejected exactly when its \<open>redirect_uri\<close> begins
  with neither \<^verbatim>\<open>https://claude.ai/\<close> nor \<^verbatim>\<open>https://claude.com/\<close>: it is then answered
  HTTP 400 \<open>invalid_request\<close> and no session is created, both stores staying as they
  were; otherwise it is answered with a redirect. Every \<open>redirect_uri\<close> that is accepted
  has the host \<open>claude.ai\<close> or \<open>claude.com\<close>.
\<close>

theorem redirect_uri_prefix_check:
  assumes "q_client_id q = Some client_id" and "client_id \<noteq> []"
    and "q_redirect_uri q = Some redirect_uri" and "redirect_uri \<noteq> []"
    and "q_response_type q = Some ''code''"
    and "q_code_challenge q = Some code_challenge" and "code_challenge \<noteq> []"
    and "q_code_challenge_method q = Some ''S256''"
  shows "(\<not> startsWith redirect_uri ''https://claude.ai/'' \<and>
          \<not> startsWith redirect_uri ''https://claude.com/'' \<longrightarrow>
            handleAuthorize baseUrl q rb now s =
              (Json 400 [] (ErrorBody ''invalid_request'' ''Invalid redirect_uri''), s,
               [Info ''OAuth /authorize request:'']))
       \<and> (startsWith redirect_uri ''https://claude.ai/'' \<or>
          startsWith redirect_uri ''https://claude.com/'' \<longrightarrow>
            (\<exists>target. fst (handleAuthorize baseUrl q rb now s) = Redirect 302 target) \<and>
            (\<exists>host. spec_uri_host redirect_uri = Some host \<and> host \<in> set spec_allowed_hosts))"
proof (intro conjI impI)
  assume "\<not> startsWith redirect_uri ''https://claude.ai/'' \<and>
          \<not> startsWith redirect_uri ''https://claude.com/''"
  with assms show "handleAuthorize baseUrl q rb now s =
      (Json 400 [] (ErrorBody ''invalid_request'' ''Invalid redirect_uri''), s,
       [Info ''OAuth /authorize request:''])"
    by (simp add: handleAuthorize_def error_response_def)
next
  assume ok: "startsWith redirect_uri ''https://claude.ai/'' \<or>
              startsWith redirect_uri ''https://claude.com/''"
  with assms show "\<exists>target. fst (handleAuthorize baseUrl q rb now s) = Redirect 302 target"
    by (auto simp add: handleAuthorize_def Let_def)
next
  assume ok: "startsWith redirect_uri ''https://claude.ai/'' \<or>
              startsWith redirect_uri ''https://claude.com/''"
  then consider rest where "redirect_uri = ''https://claude.ai/'' @ rest"
    | rest where "redirect_uri = ''https://claude.com/'' @ rest"
    unfolding startsWith_def by (metis append_take_drop_id)
  then show "\<exists>host. spec_uri_host redirect_uri = Some host \<and> host \<in> set spec_allowed_hosts"
    by cases (simp_all add: spec_uri_host_def spec_allowed_hosts_def)
qed

theorem redirect_uri_prefix_check_witness:
  "handleAuthorize example_baseUrl (example_query\<lparr>q_redirect_uri := Some ''https://evil.example/cb''\<rparr>)
     example_code_bytes 0 initial_state =
     (Json 400 [] (ErrorBody ''invalid_request'' ''Invalid redirect_uri''), initial_state,
      [Info ''OAuth /authorize request:''])
   \<and> startsWith ''https://claude.ai/cb'' ''https://claude.ai/''
   \<and> (\<exists>target. fst (handleAuthorize example_baseUrl example_query example_code_bytes 0
                       initial_state) = Redirect 302 target)
   \<and> spec_uri_host ''https://claude.ai/cb'' = Some ''claude.ai''"
proof -
  let ?q = "example_query\<lparr>q_redirect_uri := Some ''https://evil.example/cb''\<rparr>"
  have bad: "\<not> startsWith ''https://evil.example/cb'' ''https://claude.ai/'' \<and>
             \<not> startsWith ''https://evil.example/cb'' ''https://claude.com/''"
    by (simp add: startsWith_def)
  have good: "startsWith ''https://claude.ai/cb'' ''https://claude.ai/'' \<or>
              startsWith ''https://claude.ai/cb'' ''https://claude.com/''"
    by (simp add: startsWith_def)
  have "handleAuthorize example_baseUrl ?q example_code_bytes 0 initial_state =
     (Json 400 [] (ErrorBody ''invalid_request'' ''Invalid redirect_uri''), initial_state,
      [Info ''OAuth /authorize request:''])"
    using redirect_uri_prefix_check [of ?q "''abc''" "''https://evil.example/cb''"
        example_challenge example_baseUrl example_code_bytes 0 initial_state] bad
    by (simp add: example_query_def example_challenge_def)
  moreover have "\<exists>target. fst (handleAuthorize example_baseUrl example_query example_code_bytes 0
                       initial_state) = Redirect 302 target"
    using redirect_uri_prefix_check [of example_query "''abc''" "''https://claude.ai/cb''"
        example_challenge example_baseUrl example_code_bytes 0 initial_state] good
    by (simp add: example_query_def example_challenge_def)
  ultimately show ?thesis
    by (simp add: startsWith_def spec_uri_host_def)
qed

subsection \<open>C7: a successful authorization request\<close>



subsection \<open>C8: a successful exchange\<close>

text \<open>
  Claim C8 says, among other things, that the stored access token has
  \<open>expiresAt = createdAt + 3600\<close> seconds. The handler computes \<open>expiresAt\<close> from one
  reading of the clock and takes \<open>createdAt\<close> from a second reading. When the clock
  moves from 1000 to 1001 ms between the two, the token has \<open>expiresAt = 3601000\<close> and
  \<open>createdAt = 1001\<close>.
\<close>

theorem token_lifetime_counterexample:
  "map_of (accessTokens
      (fst (snd (handleToken example_body None example_token_bytes 1000 1001 example_state))))
      example_token =
     Some \<lparr>token = example_token, t_clientId = ''abc'', t_scope = [],
           t_resource = example_baseUrl, expiresAt = 3601000, t_createdAt = 1001\<rparr>
   \<and> (3601000 :: int) \<noteq> 1001 + 3600 * 1000"
  by (simp add: example_exchange)

text \<open>
  Claim C8, amended. For every \<open>POST /token\<close> exchange in which all seven checks pass,
  the handler deletes the session, stores under a newly generated token an access token
  with the session's \<open>clientId\<close>, \<open>scope\<close> and \<open>resource\<close>, with \<open>expiresAt\<close> equal to the
  clock reading taken for it plus 3600 seconds and \<open>createdAt\<close> a clock reading of its
  own, taken next (so \<open>expiresAt = createdAt + 3600\<close> seconds whenever the two readings
  agree), and answers HTTP 200 with a body of \<open>access_token\<close>, \<open>token_type\<close>
  \<open>Bearer\<close>, \<open>expires_in\<close> 3600 and a \<open>scope\<close> field that is present exactly when the
  session's scope is non-empty.
\<close>

theorem token_exchange_success:
  assumes "b_grant_type b = Some ''authorization_code''"
    and "b_code b = Some code" and "code \<noteq> []"
    and "b_code_verifier b = Some code_verifier" and "code_verifier \<noteq> []"
    and "b_client_id b = Some client_id" and "client_id \<noteq> []"
    and "map_of (authorizationCodes s) code = Some session"
    and "verifyCodeChallenge code_verifier (codeChallenge session) (codeChallengeMethod session)"
    and "client_id = clientId session"
    and "\<not> truthy (b_redirect_uri b) \<or> b_redirect_uri b = Some (redirectUri session)"
    and "accessToken = generateRandomString 48 rb"
    and "tokenData =
           \<lparr>token = accessToken, t_clientId = clientId session, t_scope = scope session,
            t_resource = resource session, expiresAt = now + 3600 * 1000, t_createdAt = now'\<rparr>"
  shows "handleToken b ip rb now now' s =
           (Json 200 []
              (TokenBody accessToken ''Bearer'' 3600
                 (if scope session = [] then None else Some (scope session))),
            \<lparr>authorizationCodes = AList.delete code (authorizationCodes s),
             accessTokens = AList.update accessToken tokenData (accessTokens s)\<rparr>,
            [Info ''OAuth /token request:'', AuthAttempt True ip client_id,
             Info ''Issued access token:''])
         \<and> map_of (AList.delete code (authorizationCodes s)) code = None
         \<and> map_of (AList.update accessToken tokenData (accessTokens s)) accessToken =
             Some tokenData
         \<and> (now' = now \<longrightarrow> expiresAt tokenData = t_createdAt tokenData + 3600 * 1000)"
  using handleToken_success [OF assms(1-11), of ip rb now now'] assms(12,13)
  by (simp add: delete_conv' update_conv')

theorem token_exchange_success_witness:
  "map_of (authorizationCodes example_state) example_code =
     Some \<lparr>codeChallenge = example_challenge, codeChallengeMethod = ''S256'',
           redirectUri = ''https://claude.ai/cb'', clientId = ''abc'', scope = [],
           state = ''xyz'', resource = example_baseUrl, createdAt = 0\<rparr>
   \<and> verifyCodeChallenge example_verifier example_challenge ''S256''
   \<and> handleToken example_body None example_token_bytes 5000 5000 example_state =
       (Json 200 [] (TokenBody example_token ''Bearer'' 3600 None),
        \<lparr>authorizationCodes = [],
         accessTokens =
           [(example_token,
             \<lparr>token = example_token, t_clientId = ''abc'', t_scope = [],
              t_resource = example_baseUrl, expiresAt = 3605000, t_createdAt = 5000\<rparr>)]\<rparr>,
        [Info ''OAuth /token request:'', AuthAttempt True None ''abc'',
         Info ''Issued access token:''])"
proof -
  let ?session = "\<lparr>codeChallenge = example_challenge, codeChallengeMethod = ''S256'',
           redirectUri = ''https://claude.ai/cb'', clientId = ''abc'', scope = [],
           state = ''xyz'', resource = example_baseUrl, createdAt = 0\<rparr>"
  have stored: "map_of (authorizationCodes example_state) example_code = Some ?session"
    by (simp add: example_state_eq)
  have v: "verifyCodeChallenge example_verifier (codeChallenge ?session) (codeChallengeMethod ?session)"
    by (simp add: verifyCodeChallenge_def example_verifier_hash)
  have fields: "b_grant_type example_body = Some ''authorization_code''"
    "b_code example_body = Some example_code" "example_code \<noteq> []"
    "b_code_verifier example_body = Some example_verifier" "example_verifier \<noteq> []"
    "b_client_id example_body = Some ''abc''" "''abc'' \<noteq> []"
    by (simp_all add: example_body_def example_code_def example_verifier_def)
  have rest: "''abc'' = clientId ?session"
    "\<not> truthy (b_redirect_uri example_body) \<or>
       b_redirect_uri example_body = Some (redirectUri ?session)"
    by (simp_all add: example_body_def)
  from token_exchange_success [OF fields stored v rest example_token_drawn [symmetric] refl,
      of None 5000 5000] stored v
  show ?thesis
    by (simp add: example_state_eq)
qed

subsection \<open>C9: a valid token changes nothing\<close>

text \<open>
  Claim C9. For every protected request whose \<open>Authorization\<close> header carries a token
  that is in the store and not expired, the middleware lets the request proceed to the
  protected handler and leaves both stores as they were: the token's \<open>expiresAt\<close> is
  not extended and the token is not replaced.
\<close>

theorem valid_token_changes_nothing:
  assumes "map_of (accessTokens s) tok = Some tokenData"
    and "\<not> now > expiresAt tokenData"
  shows "validateBearerToken baseUrl (Some (''Bearer '' @ tok)) ip now s =
           (Next, s, [Info ''Valid access token:''])"
  using assms by (simp add: validateBearerToken_def startsWith_def)

theorem valid_token_changes_nothing_witness:
  "map_of (accessTokens example_issued_state) example_token =
     Some \<lparr>token = example_token, t_clientId = ''abc'', t_scope = [],
           t_resource = example_baseUrl, expiresAt = 3600000, t_createdAt = 0\<rparr>
   \<and> validateBearerToken None (Some (''Bearer '' @ example_token)) None 3600000
         example_issued_state =
       (Next, example_issued_state, [Info ''Valid access token:''])"
  using valid_token_changes_nothing [of example_issued_state example_token
      "\<lparr>token = example_token, t_clientId = ''abc'', t_scope = [],
        t_resource = example_baseUrl, expiresAt = 3600000, t_createdAt = 0\<rparr>" 3600000 None None]
  by (simp add: example_issued_state_eq)

subsection \<open>C10: every pending session uses S256\<close>

text \<open>
  Claim C10. In every state the server reaches from its start through authorization
  requests, token requests, protected requests and sweeps, every session in the
  pending-session store has \<open>codeChallengeMethod\<close> equal to \<open>S256\<close>; so the check the
  token endpoint makes on such a session is the comparison with the encoded SHA-256
  hash, never the comparison of the \<open>plain\<close> branch.
\<close>

theorem stored_sessions_use_S256:
  assumes "map_of (authorizationCodes (run baseUrl evs initial_state)) c = Some session"
  shows "codeChallengeMethod session = ''S256'' \<and>
         verifyCodeChallenge v (codeChallenge session) (codeChallengeMethod session) =
           (sha256_base64url v = codeChallenge session)"
proof -
  have "codeChallengeMethod session = ''S256''"
    by (rule run_S256 [OF _ assms]) (simp add: initial_state_def)
  then show ?thesis
    by (simp add: verifyCodeChallenge_def)
qed

theorem stored_sessions_use_S256_witness:
  "map_of (authorizationCodes
      (run example_baseUrl [Authorize example_query example_code_bytes 0, Sweep 1000] initial_state))
      example_code =
     Some \<lparr>codeChallenge = example_challenge, codeChallengeMethod = ''S256'',
           redirectUri = ''https://claude.ai/cb'', clientId = ''abc'', scope = [],
           state = ''xyz'', resource = example_baseUrl, createdAt = 0\<rparr>
   \<and> verifyCodeChallenge example_verifier example_challenge ''S256'' =
       (sha256_base64url example_verifier = example_challenge)"
proof -
  let ?session = "\<lparr>codeChallenge = example_challenge, codeChallengeMethod = ''S256'',
           redirectUri = ''https://claude.ai/cb'', clientId = ''abc'', scope = [],
           state = ''xyz'', resource = example_baseUrl, createdAt = 0\<rparr>"
  have "run example_baseUrl [Authorize example_query example_code_bytes 0, Sweep 1000]
          initial_state = sweep 1000 example_state"
    by (simp add: run_def example_state_def)
  also have "\<dots> = example_state"
    by (simp add: sweep_def example_state_eq)
  finally have stored: "map_of (authorizationCodes
      (run example_baseUrl [Authorize example_query example_code_bytes 0, Sweep 1000] initial_state))
      example_code = Some ?session"
    by (simp add: example_state_eq)
  from stored_sessions_use_S256 [OF stored, of example_verifier] stored show ?thesis
    by simp
qed

end
